theory Spec2Isabelle
  imports Complex_Main
begin

section \<open>Data model\<close>

text \<open>
  The Python sources work on NumPy arrays of 64-bit floats. The embedding reads every
  float as a real number (exact arithmetic); a spin configuration of shape \<open>(N, 3)\<close>
  is a list of \<open>N\<close> rows, each row a triple.
\<close>

type_synonym vec3 = "real \<times> real \<times> real"

datatype py_error = ValueError | TypeError | IndexError | RuntimeError | NonFinite

text \<open>
  \<open>NonFinite\<close> is not a Python exception: it marks a run in which NumPy divides by a
  zero norm and goes on with \<open>nan\<close> entries, values the real numbers do not have.
\<close>

fun vadd :: "vec3 \<Rightarrow> vec3 \<Rightarrow> vec3" where
  "vadd (a1, a2, a3) (b1, b2, b3) = (a1 + b1, a2 + b2, a3 + b3)"

fun vsub :: "vec3 \<Rightarrow> vec3 \<Rightarrow> vec3" where
  "vsub (a1, a2, a3) (b1, b2, b3) = (a1 - b1, a2 - b2, a3 - b3)"

fun smul :: "real \<Rightarrow> vec3 \<Rightarrow> vec3" where
  "smul k (a1, a2, a3) = (k * a1, k * a2, k * a3)"

fun sdiv :: "vec3 \<Rightarrow> real \<Rightarrow> vec3" where
  "sdiv (a1, a2, a3) n = (a1 / n, a2 / n, a3 / n)"

fun sadd :: "vec3 \<Rightarrow> real \<Rightarrow> vec3" where
  "sadd (a1, a2, a3) c = (a1 + c, a2 + c, a3 + c)"

fun dot :: "vec3 \<Rightarrow> vec3 \<Rightarrow> real" where
  "dot (a1, a2, a3) (b1, b2, b3) = a1 * b1 + a2 * b2 + a3 * b3"

text \<open>\<open>np.cross\<close> on one pair of rows.\<close>

fun cross :: "vec3 \<Rightarrow> vec3 \<Rightarrow> vec3" where
  "cross (a1, a2, a3) (b1, b2, b3) =
     (a2 * b3 - a3 * b2, a3 * b1 - a1 * b3, a1 * b2 - a2 * b1)"

text \<open>\<open>np.linalg.norm(S, axis=1)\<close> on one row.\<close>

fun norm3 :: "vec3 \<Rightarrow> real" where
  "norm3 (a1, a2, a3) = sqrt (a1 * a1 + a2 * a2 + a3 * a3)"

text \<open>
  \<open>np.roll(a, shift, axis=0)\<close>: row \<open>i\<close> of the input becomes row
  \<open>(i + shift) mod n\<close> of the output.
\<close>

definition np_roll :: "int \<Rightarrow> 'a list \<Rightarrow> 'a list" where
  "np_roll shift xs = rotate (nat ((- shift) mod int (length xs))) xs"

text \<open>
  NumPy broadcasting of a row-wise binary operation on two arrays of shapes \<open>(n, 3)\<close>
  and \<open>(m, 3)\<close>: the row counts must agree unless one of them is 1.
\<close>

definition bcast2 :: "('a \<Rightarrow> 'b \<Rightarrow> 'c) \<Rightarrow> 'a list \<Rightarrow> 'b list \<Rightarrow> py_error + 'c list" where
  "bcast2 f xs ys =
     (if length xs = length ys then Inr (map2 f xs ys)
      else if length xs = 1 then Inr (map (f (hd xs)) ys)
      else if length ys = 1 then Inr (map (\<lambda>x. f x (hd ys)) xs)
      else Inl ValueError)"

text \<open>
  The external field argument of \<open>calculate_B_eff\<close>: its docstring allows an
  \<open>(N, 3)\<close> array or a scalar.
\<close>

datatype h_external = HScalar real | HField "vec3 list"

text \<open>An external field fits a chain of \<open>N\<close> sites: a scalar, or one row per site.\<close>

definition h_fits :: "nat \<Rightarrow> h_external \<Rightarrow> bool" where
  "h_fits N h = (case h of HScalar c \<Rightarrow> True | HField H \<Rightarrow> length H = N)"

section \<open>The effective field (\<open>core/llg_engine.py\<close>)\<close>

definition b_heisenberg :: "real \<Rightarrow> vec3 list \<Rightarrow> vec3 list" where
  "b_heisenberg J S = map2 (\<lambda>p n. smul J (vadd p n)) (np_roll 1 S) (np_roll (- 1) S)"

definition b_dmi :: "real \<Rightarrow> vec3 list \<Rightarrow> vec3 list" where
  "b_dmi D S =
     map (\<lambda>(d1, d2, d3). (- D * d2, D * d1, 0))
       (map2 vsub (np_roll (- 1) S) (np_roll 1 S))"

definition b_anisotropy :: "real \<Rightarrow> vec3 list \<Rightarrow> vec3 list" where
  "b_anisotropy Da S = map (\<lambda>(s1, s2, s3). (0, 0, - 2 * Da * s3)) S"

definition calculate_B_eff ::
  "vec3 list \<Rightarrow> real \<Rightarrow> real \<Rightarrow> real \<Rightarrow> h_external \<Rightarrow> py_error + vec3 list" where
  "calculate_B_eff S J D Da h_external =
     (let internal = map2 vadd (map2 vadd (b_heisenberg J S) (b_dmi D S)) (b_anisotropy Da S)
      in case h_external of
           HScalar c \<Rightarrow> Inr (map (\<lambda>b. sadd b c) internal)
         | HField H \<Rightarrow> bcast2 vadd internal H)"

text \<open>Sequencing of calls that may raise: the first error ends the computation.\<close>

definition bind_err :: "py_error + 'a \<Rightarrow> ('a \<Rightarrow> py_error + 'b) \<Rightarrow> py_error + 'b" where
  "bind_err m f = (case m of Inl e \<Rightarrow> Inl e | Inr x \<Rightarrow> f x)"

section \<open>Ground-state relaxation (\<open>core/llg_engine.py\<close>)\<close>

text \<open>
  \<open>S /= norms\<close> with \<open>norms\<close> of shape \<open>(N, 1)\<close>: row \<open>i\<close> is divided by
  \<open>norms[i]\<close>. NumPy does not raise on a zero divisor; the row becomes \<open>nan\<close> or
  \<open>inf\<close>, which is reported here as \<open>NonFinite\<close>, so that a division by zero shows
  in the result.
\<close>

definition np_divide_rows :: "vec3 list \<Rightarrow> real list \<Rightarrow> py_error + vec3 list" where
  "np_divide_rows S norms =
     (if list_ex (\<lambda>n. n = 0) norms then Inl NonFinite
      else Inr (map2 sdiv S norms))"

text \<open>\<open>S /= np.linalg.norm(S, axis=1, keepdims=True)\<close>\<close>

definition normalize_rows :: "vec3 list \<Rightarrow> py_error + vec3 list" where
  "normalize_rows S = np_divide_rows S (map norm3 S)"

text \<open>\<open>np.max(np.abs(A - B))\<close>; the maximum of an empty array raises.\<close>

definition abs_diff_entries :: "vec3 list \<Rightarrow> vec3 list \<Rightarrow> real list" where
  "abs_diff_entries A B =
     concat (map2 (\<lambda>(a1, a2, a3) (b1, b2, b3). [\<bar>a1 - b1\<bar>, \<bar>a2 - b2\<bar>, \<bar>a3 - b3\<bar>]) A B)"

definition np_max_abs_diff :: "vec3 list \<Rightarrow> vec3 list \<Rightarrow> py_error + real" where
  "np_max_abs_diff A B =
     (case abs_diff_entries A B of
        [] \<Rightarrow> Inl ValueError
      | x # xs \<Rightarrow> Inr (fold max xs x))"

text \<open>One pass of the loop body up to the convergence test: lines 46 to 53.\<close>

definition relax_step :: "real \<Rightarrow> real \<Rightarrow> real \<Rightarrow> real \<Rightarrow> vec3 list \<Rightarrow> py_error + vec3 list" where
  "relax_step J D Da dt_relax S =
     bind_err (calculate_B_eff S J D Da (HScalar 0))
       (\<lambda>B_eff. normalize_rows (map2 (\<lambda>s b. vadd s (smul dt_relax b)) S B_eff))"

text \<open>
  \<open>for step in range(max_steps)\<close>: \<open>step\<close> is the loop index, the argument after it
  counts the iterations that remain.
\<close>

fun relax_loop ::
  "real \<Rightarrow> real \<Rightarrow> real \<Rightarrow> real \<Rightarrow> real \<Rightarrow> nat \<Rightarrow> nat \<Rightarrow> vec3 list \<Rightarrow> py_error + vec3 list" where
  "relax_loop J D Da tolerance dt_relax step 0 S = Inr S"
| "relax_loop J D Da tolerance dt_relax step (Suc n) S =
     (case relax_step J D Da dt_relax S of
        Inl e \<Rightarrow> Inl e
      | Inr S' \<Rightarrow>
          if step mod 500 = 0 then
            (case np_max_abs_diff S' S of
               Inl e \<Rightarrow> Inl e
             | Inr change \<Rightarrow>
                 if change < tolerance then Inr S'
                 else relax_loop J D Da tolerance dt_relax (Suc step) n S')
          else relax_loop J D Da tolerance dt_relax (Suc step) n S')"

text \<open>
  \<open>rnd\<close> is the draw of \<open>np.random.rand(N, 3)\<close>, so \<open>N\<close> is its length.
\<close>

definition find_ground_state ::
  "vec3 list \<Rightarrow> real \<Rightarrow> real \<Rightarrow> real \<Rightarrow> nat \<Rightarrow> real \<Rightarrow> real \<Rightarrow> py_error + vec3 list" where
  "find_ground_state rnd J D Da max_steps tolerance dt_relax =
     bind_err (normalize_rows (map (\<lambda>v. sadd v (- (1 / 2))) rnd))
       (relax_loop J D Da tolerance dt_relax 0 max_steps)"

text \<open>
  The specification's reading of the convergence test, for comparison with the loop
  above: the change is measured against the configuration kept at the last checkpoint
  (the starting configuration before the first one).
\<close>

fun relax_loop_since_checkpoint ::
  "real \<Rightarrow> real \<Rightarrow> real \<Rightarrow> real \<Rightarrow> real \<Rightarrow> nat \<Rightarrow> nat \<Rightarrow> vec3 list \<Rightarrow> vec3 list
     \<Rightarrow> py_error + vec3 list" where
  "relax_loop_since_checkpoint J D Da tolerance dt_relax step 0 S S_chk = Inr S"
| "relax_loop_since_checkpoint J D Da tolerance dt_relax step (Suc n) S S_chk =
     (case relax_step J D Da dt_relax S of
        Inl e \<Rightarrow> Inl e
      | Inr S' \<Rightarrow>
          if step mod 500 = 0 then
            (case np_max_abs_diff S' S_chk of
               Inl e \<Rightarrow> Inl e
             | Inr change \<Rightarrow>
                 if change < tolerance then Inr S'
                 else relax_loop_since_checkpoint J D Da tolerance dt_relax (Suc step) n S' S')
          else relax_loop_since_checkpoint J D Da tolerance dt_relax (Suc step) n S' S_chk)"

definition find_ground_state_since_checkpoint ::
  "vec3 list \<Rightarrow> real \<Rightarrow> real \<Rightarrow> real \<Rightarrow> nat \<Rightarrow> real \<Rightarrow> real \<Rightarrow> py_error + vec3 list" where
  "find_ground_state_since_checkpoint rnd J D Da max_steps tolerance dt_relax =
     bind_err (normalize_rows (map (\<lambda>v. sadd v (- (1 / 2))) rnd))
       (\<lambda>S. relax_loop_since_checkpoint J D Da tolerance dt_relax 0 max_steps S S)"

text \<open>
  The loop seen from outside: \<open>run_from step k S\<close> is the configuration with which
  the loop enters iteration \<open>step + k\<close> when it entered iteration \<open>step\<close> with \<open>S\<close>,
  and \<open>None\<close> when it left the loop before.
\<close>

fun run_from ::
  "real \<Rightarrow> real \<Rightarrow> real \<Rightarrow> real \<Rightarrow> real \<Rightarrow> nat \<Rightarrow> nat \<Rightarrow> vec3 list \<Rightarrow> vec3 list option" where
  "run_from J D Da tolerance dt_relax step 0 S = Some S"
| "run_from J D Da tolerance dt_relax step (Suc k) S =
     (case relax_step J D Da dt_relax S of
        Inl e \<Rightarrow> None
      | Inr S' \<Rightarrow>
          if step mod 500 = 0 then
            (case np_max_abs_diff S' S of
               Inl e \<Rightarrow> None
             | Inr change \<Rightarrow>
                 if change < tolerance then None
                 else run_from J D Da tolerance dt_relax (Suc step) k S')
          else run_from J D Da tolerance dt_relax (Suc step) k S')"

section \<open>Right-hand side of the dynamics (\<open>core/llg_engine.py\<close>)\<close>

text \<open>\<open>S_flat.reshape((N, 3))\<close> raises unless the array has \<open>3 N\<close> entries.\<close>

definition reshape_N3 :: "real list \<Rightarrow> nat \<Rightarrow> py_error + vec3 list" where
  "reshape_N3 xs N =
     (if length xs = 3 * N
      then Inr (map (\<lambda>i. (xs ! (3 * i), xs ! (3 * i + 1), xs ! (3 * i + 2))) [0..<N])
      else Inl ValueError)"

definition flatten :: "vec3 list \<Rightarrow> real list" where
  "flatten S = concat (map (\<lambda>(a1, a2, a3). [a1, a2, a3]) S)"

text \<open>\<open>norms[norms == 0] = 1\<close>\<close>

definition guard_norms :: "real list \<Rightarrow> real list" where
  "guard_norms norms = map (\<lambda>n. if n = 0 then 1 else n) norms"

text \<open>Lines 72 to 74: the norms, the guard, the division in place.\<close>

definition renormalize :: "vec3 list \<Rightarrow> py_error + vec3 list" where
  "renormalize S = np_divide_rows S (guard_norms (map norm3 S))"

text \<open>
  Lines 77 to 80. \<open>h_args\<close> defaults to \<open>None\<close>, and \<open>**None\<close> raises a
  \<open>TypeError\<close>.
\<close>

definition external_field ::
  "real \<Rightarrow> nat \<Rightarrow> (real \<Rightarrow> nat \<Rightarrow> 'a \<Rightarrow> h_external) option \<Rightarrow> 'a option \<Rightarrow> py_error + h_external" where
  "external_field t N h_external_func h_args =
     (case h_external_func of
        None \<Rightarrow> Inr (HScalar 0)
      | Some f \<Rightarrow> (case h_args of None \<Rightarrow> Inl TypeError | Some a \<Rightarrow> Inr (f t N a)))"

text \<open>Lines 85 to 88, on the normalised configuration and the effective field.\<close>

definition llg_dSdt :: "real \<Rightarrow> real \<Rightarrow> vec3 list \<Rightarrow> vec3 list \<Rightarrow> py_error + vec3 list" where
  "llg_dSdt alpha gamma S B_eff =
     bind_err (bcast2 cross S B_eff) (\<lambda>c1.
     bind_err (bcast2 cross S c1) (\<lambda>c2.
       bcast2 vadd (map (smul (- gamma)) c1) (map (smul (- alpha)) c2)))"

text \<open>
  \<open>S_flat\<close> is a one-dimensional float array, so \<open>reshape\<close> returns a view of it and
  \<open>S /= norms\<close> writes into the caller's array. The function therefore returns a pair:
  what the call returns or raises, and the contents of the caller's array after the call.
  The guard leaves no zero among the norms, so the division never reports \<open>NonFinite\<close>
  and that branch is never taken.
\<close>

definition llg_rhs ::
  "real \<Rightarrow> real list \<Rightarrow> nat \<Rightarrow> real \<Rightarrow> real \<Rightarrow> real \<Rightarrow> real \<Rightarrow> real
     \<Rightarrow> (real \<Rightarrow> nat \<Rightarrow> 'a \<Rightarrow> h_external) option \<Rightarrow> 'a option
     \<Rightarrow> (py_error + real list) \<times> real list" where
  "llg_rhs t S_flat N J D Da alpha gamma h_external_func h_args =
     (case reshape_N3 S_flat N of
        Inl e \<Rightarrow> (Inl e, S_flat)
      | Inr S0 \<Rightarrow>
          (case renormalize S0 of
             Inl e \<Rightarrow> (Inl e, S_flat)
           | Inr S \<Rightarrow>
               (bind_err (external_field t N h_external_func h_args) (\<lambda>h_ext.
                bind_err (calculate_B_eff S J D Da h_ext) (\<lambda>B_eff.
                bind_err (llg_dSdt alpha gamma S B_eff) (\<lambda>dSdt.
                  Inr (flatten dSdt)))),
                flatten S)))"

section \<open>Soliton tracking and velocity (\<open>analysis/calculate_mobility.py\<close>)\<close>

text \<open>
  \<open>analysis/extract_velocity.py\<close> repeats the same tracking loop, mask and guard in its
  main loop; \<open>calculate_velocity\<close> is the version that is a function.
\<close>

record npz_data =
  S_history :: "real list list"
  time_points :: "real list"

datatype velocity = NaN | Velocity real

definition T_START_FIT :: real where
  "T_START_FIT = 30"

definition T_END_FIT :: real where
  "T_END_FIT = 150"

text \<open>
  \<open>S_history_flat.T.reshape(-1, N, 3)[:, :, 2]\<close> with \<open>N = S_history_flat.shape[0] // 3\<close>.
  The array is two-dimensional: a list of rows of one length. The transposed array is
  read in row-major order and cut into frames of \<open>3 N\<close> entries; \<open>reshape\<close> raises
  when \<open>N = 0\<close> or when the entries do not fill whole frames.
\<close>

definition sz_history_of :: "real list list \<Rightarrow> py_error + real list list" where
  "sz_history_of S_history_flat =
     (let N = length S_history_flat div 3;
          T = (case S_history_flat of [] \<Rightarrow> 0 | r # _ \<Rightarrow> length r);
          entries = concat (map (\<lambda>t. map (\<lambda>row. row ! t) S_history_flat) [0..<T])
      in if N = 0 \<or> length entries mod (3 * N) \<noteq> 0 then Inl ValueError
         else Inr (map (\<lambda>f. map (\<lambda>i. entries ! (f * (3 * N) + 3 * i + 2)) [0..<N])
                     [0..<length entries div (3 * N)]))"

text \<open>\<open>np.where(row < 0.0)[0]\<close>\<close>

definition np_where_neg :: "real list \<Rightarrow> nat list" where
  "np_where_neg row = filter (\<lambda>i. row ! i < 0) [0..<length row]"

definition np_mean :: "nat list \<Rightarrow> real" where
  "np_mean idx = real (sum_list idx) / real (length idx)"

text \<open>
  The loop over \<open>enumerate(time_points)\<close>; the accumulators are the lists
  \<open>positions\<close> and \<open>times_with_soliton\<close>.
\<close>

fun track_soliton ::
  "real list list \<Rightarrow> nat \<Rightarrow> real list \<Rightarrow> real list \<times> real list
     \<Rightarrow> py_error + (real list \<times> real list)" where
  "track_soliton sz_history t_idx [] (positions, times_with_soliton) =
     Inr (positions, times_with_soliton)"
| "track_soliton sz_history t_idx (t # ts) (positions, times_with_soliton) =
     (if t_idx < length sz_history then
        (let core_indices = np_where_neg (sz_history ! t_idx)
         in if length core_indices > 0
            then track_soliton sz_history (Suc t_idx) ts
                   (positions @ [np_mean core_indices], times_with_soliton @ [t])
            else track_soliton sz_history (Suc t_idx) ts (positions, times_with_soliton))
      else Inl IndexError)"

definition fit_mask :: "real list \<Rightarrow> bool list" where
  "fit_mask times_with_soliton =
     map (\<lambda>t. t > T_START_FIT \<and> t < T_END_FIT) times_with_soliton"

text \<open>\<open>np.sum(mask)\<close> and \<open>a[mask]\<close> for a Boolean mask of the length of \<open>a\<close>.\<close>

definition np_sum_mask :: "bool list \<Rightarrow> nat" where
  "np_sum_mask msk = length (filter id msk)"

definition mask_select :: "'a list \<Rightarrow> bool list \<Rightarrow> 'a list" where
  "mask_select xs msk = map fst (filter snd (zip xs msk))"

text \<open>
  Lines 61 to 74, after tracking. \<open>curve_fit\<close> is SciPy's fitter for
  \<open>linear_func\<close>, taken as a parameter: it returns the parameters \<open>(a, b)\<close> or raises.
\<close>

definition fit_velocity ::
  "(real list \<Rightarrow> real list \<Rightarrow> py_error + real \<times> real) \<Rightarrow> real list \<Rightarrow> real list
     \<Rightarrow> py_error + velocity" where
  "fit_velocity curve_fit positions times_with_soliton =
     (let msk = fit_mask times_with_soliton
      in if np_sum_mask msk < 2 then Inr NaN
         else (case curve_fit (mask_select times_with_soliton msk) (mask_select positions msk) of
                 Inl RuntimeError \<Rightarrow> Inr NaN
               | Inl e \<Rightarrow> Inl e
               | Inr (a, b) \<Rightarrow> Inr (Velocity a)))"

text \<open>
  \<open>data\<close> is what \<open>np.load\<close> gives: \<open>None\<close> stands for the caught
  \<open>FileNotFoundError\<close>.
\<close>

definition calculate_velocity ::
  "(real list \<Rightarrow> real list \<Rightarrow> py_error + real \<times> real) \<Rightarrow> npz_data option
     \<Rightarrow> py_error + velocity" where
  "calculate_velocity curve_fit data =
     (case data of
        None \<Rightarrow> Inr NaN
      | Some d \<Rightarrow>
          bind_err (sz_history_of (S_history d)) (\<lambda>sz_history.
          bind_err (track_soliton sz_history 0 (time_points d) ([], [])) (\<lambda>(positions, times_with_soliton).
            if times_with_soliton = [] then Inr NaN
            else fit_velocity curve_fit positions times_with_soliton)))"

text \<open>
  The samples the tracking loop emits, written without the loop: one pair (time, mean of
  the core indices) for every sampled time whose row has a negative entry.
\<close>

definition tracked_samples :: "real list list \<Rightarrow> real list \<Rightarrow> (real \<times> real) list" where
  "tracked_samples sz_history tpts =
     map (\<lambda>(t, row). (t, np_mean (np_where_neg row)))
       (filter (\<lambda>(t, row). np_where_neg row \<noteq> []) (zip tpts sz_history))"

text \<open>The fit window as the code's mask has it, on a (time, position) sample.\<close>

definition in_open_window :: "real \<times> real \<Rightarrow> bool" where
  "in_open_window sample = (T_START_FIT < fst sample \<and> fst sample < T_END_FIT)"

text \<open>
  The fit window in the specification's words, \<open>[T_START_FIT, T_END_FIT]\<close> with both
  ends, for comparison with the mask.
\<close>

definition in_closed_window :: "real \<times> real \<Rightarrow> bool" where
  "in_closed_window sample = (T_START_FIT \<le> fst sample \<and> fst sample \<le> T_END_FIT)"

section \<open>Periodic neighbours\<close>

lemma length_np_roll [simp]: "length (np_roll k xs) = length xs"
  by (simp add: np_roll_def)

lemma np_roll_next_nth:
  assumes "i < length xs"
  shows "np_roll (- 1) xs ! i = xs ! ((i + 1) mod length xs)"
proof -
  have n: "0 < length xs" using assms by auto
  have "nat (1 mod int (length xs)) mod length xs = 1 mod length xs"
    by (metis nat_int of_nat_1 of_nat_mod mod_mod_trivial)
  then have "(nat (1 mod int (length xs)) + i) mod length xs = (i + 1) mod length xs"
    by (metis add.commute mod_add_left_eq)
  then show ?thesis
    using assms by (simp add: np_roll_def nth_rotate add.commute)
qed

lemma np_roll_prev_nth:
  assumes "i < length xs"
  shows "np_roll 1 xs ! i = xs ! ((i + length xs - 1) mod length xs)"
proof -
  have n: "0 < length xs" using assms by auto
  have "(- 1) mod int (length xs) = int (length xs - 1)"
    using n by (cases xs) (simp_all add: zmod_minus1)
  then have "nat ((- 1) mod int (length xs)) = length xs - 1" by simp
  then show ?thesis
    using assms n by (simp add: np_roll_def nth_rotate add.commute)
qed

section \<open>The effective field, site by site\<close>

lemma length_internal [simp]:
  "length (b_heisenberg J S) = length S" "length (b_dmi D S) = length S"
  "length (b_anisotropy Da S) = length S"
  by (simp_all add: b_heisenberg_def b_dmi_def b_anisotropy_def)

lemma b_heisenberg_nth:
  "i < length S \<Longrightarrow> b_heisenberg J S ! i =
     smul J (vadd (S ! ((i + length S - 1) mod length S)) (S ! ((i + 1) mod length S)))"
  by (simp add: b_heisenberg_def np_roll_next_nth np_roll_prev_nth)

lemma b_dmi_nth:
  "i < length S \<Longrightarrow> b_dmi D S ! i =
     (case vsub (S ! ((i + 1) mod length S)) (S ! ((i + length S - 1) mod length S)) of
        (d1, d2, d3) \<Rightarrow> (- D * d2, D * d1, 0))"
  by (simp add: b_dmi_def np_roll_next_nth np_roll_prev_nth)

lemma b_anisotropy_nth:
  "i < length S \<Longrightarrow> b_anisotropy Da S ! i = (case S ! i of (s1, s2, s3) \<Rightarrow> (0, 0, - 2 * Da * s3))"
  by (simp add: b_anisotropy_def)

text \<open>
  C1. For a configuration \<open>S\<close> of \<open>N\<close> rows and an external field \<open>H\<close> of \<open>N\<close> rows,
  \<open>calculate_B_eff\<close> returns \<open>N\<close> rows, and row \<open>i\<close> is the sum of the exchange term
  \<open>J (S[i-1] + S[i+1])\<close>, the DMI term \<open>(- D diff.y, D diff.x, 0)\<close> with
  \<open>diff = S[i+1] - S[i-1]\<close>, the anisotropy term \<open>(0, 0, - 2 Da S[i].z)\<close> and \<open>H[i]\<close>,
  the neighbour indices taken modulo \<open>N\<close>.
\<close>

theorem calculate_B_eff_per_site:
  assumes "length H = length S"
  shows "\<exists>B. calculate_B_eff S J D Da (HField H) = Inr B \<and> length B = length S \<and>
    (\<forall>i<length S. B ! i =
       vadd (vadd (vadd
         (smul J (vadd (S ! ((i + length S - 1) mod length S)) (S ! ((i + 1) mod length S))))
         (case vsub (S ! ((i + 1) mod length S)) (S ! ((i + length S - 1) mod length S)) of
            (d1, d2, d3) \<Rightarrow> (- D * d2, D * d1, 0)))
         (case S ! i of (s1, s2, s3) \<Rightarrow> (0, 0, - 2 * Da * s3)))
         (H ! i))"
  using assms
  by (simp add: calculate_B_eff_def bcast2_def b_heisenberg_nth b_dmi_nth b_anisotropy_nth)

theorem calculate_B_eff_per_site_witness:
  "\<exists>B. calculate_B_eff [(1, 0, 0), (0, 1, 0), (0, 0, 1)] 1 2 3
          (HField [(1, 1, 1), (2, 2, 2), (3, 3, 3)]) = Inr B \<and> length B = 3 \<and>
        B ! 0 = (- 1, 2, 2) \<and> B ! 1 = (3, 0, 3) \<and> B ! 2 = (6, 6, - 3)"
  using calculate_B_eff_per_site [of "[(1, 1, 1), (2, 2, 2), (3, 3, 3)]" "[(1, 0, 0), (0, 1, 0), (0, 0, 1)]" 1 2 3]
  apply simp
  apply (erule exE)
  apply (rule_tac x = B in exI)
  apply (elim conjE)
  apply (frule_tac x = 0 in spec)
  apply (frule_tac x = 1 in spec)
  apply (drule_tac x = 2 in spec)
  apply simp
  done

section \<open>Cyclic relabelling of the sites\<close>

lemma rotate_zip:
  assumes "length xs = length ys"
  shows "rotate n (zip xs ys) = zip (rotate n xs) (rotate n ys)"
proof (rule nth_equalityI)
  show "length (rotate n (zip xs ys)) = length (zip (rotate n xs) (rotate n ys))"
    using assms by simp
next
  fix i
  assume "i < length (rotate n (zip xs ys))"
  then have i: "i < length ys" using assms by simp
  then have "0 < length ys" by (cases ys) simp_all
  then have "(n + i) mod length ys < length ys" by (rule mod_less_divisor)
  then show "rotate n (zip xs ys) ! i = zip (rotate n xs) (rotate n ys) ! i"
    using assms i by (simp add: nth_rotate)
qed

lemma np_roll_map: "np_roll k (map f xs) = map f (np_roll k xs)"
  by (simp add: np_roll_def rotate_map)

lemma np_roll_zip:
  "length xs = length ys \<Longrightarrow> np_roll k (zip xs ys) = zip (np_roll k xs) (np_roll k ys)"
  by (simp add: np_roll_def rotate_zip)

lemma np_roll_commute: "np_roll k (np_roll j xs) = np_roll j (np_roll k xs)"
  by (simp add: np_roll_def rotate_rotate add.commute)

lemma np_roll_single: "length xs = 1 \<Longrightarrow> np_roll k xs = xs"
  by (cases xs) (simp_all add: np_roll_def)

lemma hd_np_roll_single: "length xs = 1 \<Longrightarrow> hd (np_roll k xs) = hd xs"
  by (simp add: np_roll_single)

lemma b_heisenberg_roll: "b_heisenberg J (np_roll k S) = np_roll k (b_heisenberg J S)"
  by (simp add: b_heisenberg_def np_roll_map np_roll_zip np_roll_commute [of _ k])

lemma b_dmi_roll: "b_dmi D (np_roll k S) = np_roll k (b_dmi D S)"
  by (simp add: b_dmi_def np_roll_map np_roll_zip np_roll_commute [of _ k])

lemma b_anisotropy_roll: "b_anisotropy Da (np_roll k S) = np_roll k (b_anisotropy Da S)"
  by (simp add: b_anisotropy_def np_roll_map)

lemma bcast2_roll:
  "bcast2 f (np_roll k xs) (np_roll k ys) = map_sum id (np_roll k) (bcast2 f xs ys)"
  by (simp add: bcast2_def np_roll_zip np_roll_map np_roll_single)

text \<open>
  C7. Rolling the configuration and the external field by the same shift \<open>k\<close> rolls
  the effective field by \<open>k\<close> (and an error stays the same error); with a scalar
  external field, rolling the configuration alone does.
\<close>

theorem calculate_B_eff_cyclic:
  "calculate_B_eff (np_roll k S) J D Da (HField (np_roll k H)) =
     map_sum id (np_roll k) (calculate_B_eff S J D Da (HField H))
   \<and> calculate_B_eff (np_roll k S) J D Da (HScalar c) =
     map_sum id (np_roll k) (calculate_B_eff S J D Da (HScalar c))"
  by (simp add: calculate_B_eff_def b_heisenberg_roll b_dmi_roll b_anisotropy_roll
      np_roll_zip np_roll_map bcast2_roll [symmetric])

section \<open>The right-hand side of the dynamics, site by site\<close>

lemma length_flatten [simp]: "length (flatten S) = 3 * length S"
  by (induction S) (auto simp: flatten_def)

lemma flatten_nth:
  "i < length S \<Longrightarrow>
     (flatten S ! (3 * i), flatten S ! (3 * i + 1), flatten S ! (3 * i + 2)) = S ! i"
proof (induction S arbitrary: i)
  case Nil
  then show ?case by simp
next
  case (Cons s S)
  obtain a1 a2 a3 where s: "s = (a1, a2, a3)" by (cases s) auto
  have fl: "flatten ((a1, a2, a3) # S) = a1 # a2 # a3 # flatten S"
    by (simp add: flatten_def)
  show ?case
  proof (cases i)
    case 0
    then show ?thesis by (simp add: fl s)
  next
    case (Suc j)
    then have j: "j < length S" using Cons.prems by simp
    have e: "3 * i = Suc (Suc (Suc (3 * j)))" "3 * i + 1 = Suc (Suc (Suc (3 * j + 1)))"
      "3 * i + 2 = Suc (Suc (Suc (3 * j + 2)))"
      using Suc by simp_all
    have "flatten (s # S) ! (3 * i) = flatten S ! (3 * j)"
      "flatten (s # S) ! (3 * i + 1) = flatten S ! (3 * j + 1)"
      "flatten (s # S) ! (3 * i + 2) = flatten S ! (3 * j + 2)"
      unfolding s fl e by simp_all
    then show ?thesis
      using Cons.IH [OF j] Suc by simp
  qed
qed

lemma reshape_N3_ok:
  "length xs = 3 * N \<Longrightarrow> \<exists>S0. reshape_N3 xs N = Inr S0 \<and> length S0 = N"
  by (simp add: reshape_N3_def)

lemma reshape_N3_nth:
  "reshape_N3 xs N = Inr S0 \<Longrightarrow> i < N \<Longrightarrow>
     S0 ! i = (xs ! (3 * i), xs ! (3 * i + 1), xs ! (3 * i + 2))"
  by (auto simp: reshape_N3_def split: if_splits)

lemma guard_norms_nonzero: "\<not> list_ex (\<lambda>n. n = 0) (guard_norms norms)"
  by (auto simp: guard_norms_def list_ex_iff)

lemma renormalize_ok:
  "renormalize S = Inr (map (\<lambda>s. sdiv s (if norm3 s = 0 then 1 else norm3 s)) S)"
proof -
  have "map2 sdiv S (guard_norms (map norm3 S))
      = map (\<lambda>s. sdiv s (if norm3 s = 0 then 1 else norm3 s)) S"
    by (rule nth_equalityI) (simp_all add: guard_norms_def)
  then show ?thesis
    by (simp add: renormalize_def np_divide_rows_def guard_norms_nonzero)
qed

lemma renormalize_site:
  "sdiv (x, y, z) (if norm3 (x, y, z) = 0 then 1 else norm3 (x, y, z)) =
     (let n = sqrt (x * x + y * y + z * z)
      in if n = 0 then (x, y, z) else (x / n, y / n, z / n))"
  by (simp add: Let_def)

lemma calculate_B_eff_fits:
  "h_fits (length S) h \<Longrightarrow> \<exists>B. calculate_B_eff S J D Da h = Inr B \<and> length B = length S"
  by (cases h) (simp_all add: h_fits_def calculate_B_eff_def bcast2_def)

lemma llg_dSdt_same_length:
  "length B = length S \<Longrightarrow>
     llg_dSdt alpha gamma S B =
       Inr (map2 (\<lambda>s b. vadd (smul (- gamma) (cross s b)) (smul (- alpha) (cross s (cross s b)))) S B)"
  by (simp add: llg_dSdt_def bcast2_def bind_err_def zip_map1 zip_map2 zip_same_conv_map
      map_zip_map map_zip_map2)
    (rule nth_equalityI; simp)

lemma llg_rhs_value:
  assumes "length S_flat = 3 * N" "external_field t N f a = Inr h" "h_fits N h"
  shows "\<exists>S0 S B. reshape_N3 S_flat N = Inr S0 \<and> renormalize S0 = Inr S \<and> length S = N \<and>
     (\<forall>i<N. S ! i =
        (let x = S_flat ! (3 * i); y = S_flat ! (3 * i + 1); z = S_flat ! (3 * i + 2);
             n = sqrt (x * x + y * y + z * z)
         in if n = 0 then (x, y, z) else (x / n, y / n, z / n))) \<and>
     calculate_B_eff S J D Da h = Inr B \<and> length B = N \<and>
     llg_rhs t S_flat N J D Da alpha gamma f a =
       (Inr (flatten (map2 (\<lambda>s b. vadd (smul (- gamma) (cross s b))
                                   (smul (- alpha) (cross s (cross s b))))
                      S B)),
        flatten S)"
proof -
  obtain S0 where S0: "reshape_N3 S_flat N = Inr S0" "length S0 = N"
    using reshape_N3_ok [OF assms(1)] by blast
  define S where "S = map (\<lambda>s. sdiv s (if norm3 s = 0 then 1 else norm3 s)) S0"
  have r: "renormalize S0 = Inr S" by (simp add: S_def renormalize_ok)
  have len: "length S = N" by (simp add: S_def S0(2))
  have site: "S ! i =
        (let x = S_flat ! (3 * i); y = S_flat ! (3 * i + 1); z = S_flat ! (3 * i + 2);
             n = sqrt (x * x + y * y + z * z)
         in if n = 0 then (x, y, z) else (x / n, y / n, z / n))" if "i < N" for i
  proof -
    have "S ! i = sdiv (S0 ! i) (if norm3 (S0 ! i) = 0 then 1 else norm3 (S0 ! i))"
      using that S0(2) by (simp add: S_def)
    then show ?thesis
      unfolding reshape_N3_nth [OF S0(1) that] renormalize_site by (simp add: Let_def)
  qed
  have "h_fits (length S) h" using assms(3) len by simp
  then obtain B where B: "calculate_B_eff S J D Da h = Inr B" "length B = length S"
    using calculate_B_eff_fits by blast
  have "llg_rhs t S_flat N J D Da alpha gamma f a =
       (Inr (flatten (map2 (\<lambda>s b. vadd (smul (- gamma) (cross s b))
                                   (smul (- alpha) (cross s (cross s b))))
                      S B)),
        flatten S)"
    using S0 r B assms(2) by (simp add: llg_rhs_def bind_err_def llg_dSdt_same_length)
  with S0(1) r len site B show ?thesis by auto
qed

lemma external_field_cases:
  "h_external_func = None \<and> h_ext = HScalar 0
     \<or> (\<exists>f a. h_external_func = Some f \<and> h_args = Some a \<and> h_ext = f t N a)
   \<Longrightarrow> external_field t N h_external_func h_args = Inr h_ext"
  by (auto simp: external_field_def)

lemma llg_site_orthogonal:
  "dot (vadd (smul g (cross s b)) (smul a (cross s (cross s b)))) s = 0"
  by (cases s; cases b) (simp add: algebra_simps)

lemma llg_site_law:
  "vadd (smul (- g) (cross s b)) (smul (- a) (cross s (cross s b))) =
   vsub (smul (- g) (cross s b)) (smul a (cross s (cross s b)))"
  by (cases s; cases b) simp

text \<open>
  C2. Take a flat state of \<open>3 N\<close> entries and an external field that fits the chain:
  the zero field when no field function is given, else the field function applied to
  \<open>t\<close>, \<open>N\<close> and its arguments. Let \<open>S\<close> be the state renormalised site by site (a site
  of norm zero as it is, any other divided by its norm) and \<open>B\<close> what
  \<open>calculate_B_eff\<close> returns on \<open>S\<close> and that field. Then \<open>llg_rhs\<close> returns \<open>3 N\<close>
  entries, and the three entries of site \<open>i\<close> are
  \<open>- gamma (S[i] \<times> B[i]) - alpha (S[i] \<times> (S[i] \<times> B[i]))\<close>.
\<close>

theorem llg_rhs_law:
  assumes "length S_flat = 3 * N"
    and "h_external_func = None \<and> h_ext = HScalar 0
       \<or> (\<exists>f a. h_external_func = Some f \<and> h_args = Some a \<and> h_ext = f t N a)"
    and "h_fits N h_ext"
  shows "\<exists>S B out. length S = N \<and>
     (\<forall>i<N. S ! i =
        (let x = S_flat ! (3 * i); y = S_flat ! (3 * i + 1); z = S_flat ! (3 * i + 2);
             n = sqrt (x * x + y * y + z * z)
         in if n = 0 then (x, y, z) else (x / n, y / n, z / n))) \<and>
     calculate_B_eff S J D Da h_ext = Inr B \<and>
     fst (llg_rhs t S_flat N J D Da alpha gamma h_external_func h_args) = Inr out \<and>
     length out = 3 * N \<and>
     (\<forall>i<N. (out ! (3 * i), out ! (3 * i + 1), out ! (3 * i + 2)) =
        vsub (smul (- gamma) (cross (S ! i) (B ! i)))
             (smul alpha (cross (S ! i) (cross (S ! i) (B ! i)))))"
proof -
  let ?f = "\<lambda>s b. vadd (smul (- gamma) (cross s b)) (smul (- alpha) (cross s (cross s b)))"
  have ext: "external_field t N h_external_func h_args = Inr h_ext"
    using assms(2) by (rule external_field_cases)
  obtain S0 S B where v: "length S = N"
      "\<forall>i<N. S ! i =
        (let x = S_flat ! (3 * i); y = S_flat ! (3 * i + 1); z = S_flat ! (3 * i + 2);
             n = sqrt (x * x + y * y + z * z)
         in if n = 0 then (x, y, z) else (x / n, y / n, z / n))"
      "calculate_B_eff S J D Da h_ext = Inr B" "length B = N"
      "llg_rhs t S_flat N J D Da alpha gamma h_external_func h_args =
         (Inr (flatten (map2 ?f S B)), flatten S)"
    using llg_rhs_value [OF assms(1) ext assms(3), of J D Da alpha gamma] by blast
  let ?out = "flatten (map2 ?f S B)"
  have len: "length (map2 ?f S B) = N" using v(1,4) by simp
  have "(?out ! (3 * i), ?out ! (3 * i + 1), ?out ! (3 * i + 2)) =
        vsub (smul (- gamma) (cross (S ! i) (B ! i)))
             (smul alpha (cross (S ! i) (cross (S ! i) (B ! i))))"
    if "i < N" for i
  proof -
    have "(?out ! (3 * i), ?out ! (3 * i + 1), ?out ! (3 * i + 2)) = map2 ?f S B ! i"
      using that len by (intro flatten_nth) simp
    also have "\<dots> = ?f (S ! i) (B ! i)"
      using that v(1,4) by simp
    finally show ?thesis by (simp only: llg_site_law)
  qed
  then have sites: "\<forall>i<N. (?out ! (3 * i), ?out ! (3 * i + 1), ?out ! (3 * i + 2)) =
        vsub (smul (- gamma) (cross (S ! i) (B ! i)))
             (smul alpha (cross (S ! i) (cross (S ! i) (B ! i))))"
    by blast
  have "fst (llg_rhs t S_flat N J D Da alpha gamma h_external_func h_args) = Inr ?out"
    by (simp add: v(5))
  moreover have "length ?out = 3 * N" using len by simp
  ultimately show ?thesis using v(1,2,3) sites by blast
qed

lemma list_of_three: "length xs = 3 \<Longrightarrow> xs = [xs ! 0, xs ! 1, xs ! 2]"
  by (rule nth_equalityI) (auto simp: less_Suc_eq numeral_3_eq_3 numeral_2_eq_2)

lemma np_roll_three: "np_roll 1 [a, b, c] = [c, a, b]" "np_roll (- 1) [a, b, c] = [b, c, a]"
  by (simp_all add: np_roll_def eval_nat_numeral)

lemma calculate_B_eff_example:
  "calculate_B_eff [(3 / 5, 0, 4 / 5), (0, 1, 0), (0, 0, 1)] 1 1 (1 / 2)
       (HField [(1, 2, 0), (1, 2, 0), (1, 2, 0)])
     = Inr [(0, 3, 1 / 5), (8 / 5, 7 / 5, 9 / 5), (13 / 5, 18 / 5, - (1 / 5))]"
  by (simp add: calculate_B_eff_def b_heisenberg_def b_dmi_def b_anisotropy_def bcast2_def
      np_roll_three)

lemma sqrt_25: "sqrt 25 = 5"
  by (rule real_sqrt_unique) simp_all


theorem llg_rhs_law_witness:
  "length [3, 0, 4, 0, 5, 0, 0, 0, 2 :: real] = 3 * 3 \<and>
   h_fits 3 (HField (replicate 3 (1, 2, 0))) \<and>
   (\<exists>out. fst (llg_rhs 1 [3, 0, 4, 0, 5, 0, 0, 0, 2] 3 1 1 (1 / 2) (1 / 2) 1
                  (Some (\<lambda>t N a. HField (replicate N (t, a, 0)))) (Some 2)) = Inr out \<and>
      (out ! 0, out ! 1, out ! 2) = (294 / 125, 81 / 50, - (441 / 250)) \<and>
      (out ! 3, out ! 4, out ! 5) = (- 1, 0, 5 / 2) \<and>
      (out ! 6, out ! 7, out ! 8) = (49 / 10, - (4 / 5), 0))"
proof -
  let ?y = "[3, 0, 4, 0, 5, 0, 0, 0, 2 :: real]"
  let ?f = "\<lambda>(t :: real) (N :: nat) (a :: real). HField (replicate N (t, a, 0))"
  let ?H = "HField (replicate 3 (1, 2, 0))"
  have h1: "length ?y = 3 * 3" by simp
  have h2: "Some ?f = None \<and> ?H = HScalar 0
      \<or> (\<exists>f a. Some ?f = Some f \<and> Some (2 :: real) = Some a \<and> ?H = f 1 3 a)"
    by simp
  have h3: "h_fits 3 ?H" by (simp add: h_fits_def)
  from llg_rhs_law [OF h1 h2 h3, of 1 1 "1 / 2" "1 / 2" 1]
  obtain S B out where len: "length S = 3"
    and sites: "\<forall>i<3. S ! i =
        (let x = ?y ! (3 * i); y = ?y ! (3 * i + 1); z = ?y ! (3 * i + 2);
             n = sqrt (x * x + y * y + z * z)
         in if n = 0 then (x, y, z) else (x / n, y / n, z / n))"
    and B: "calculate_B_eff S 1 1 (1 / 2) ?H = Inr B"
    and out: "fst (llg_rhs 1 ?y 3 1 1 (1 / 2) (1 / 2) 1 (Some ?f) (Some 2)) = Inr out"
    and law: "\<forall>i<3. (out ! (3 * i), out ! (3 * i + 1), out ! (3 * i + 2)) =
        vsub (smul (- 1) (cross (S ! i) (B ! i)))
             (smul (1 / 2) (cross (S ! i) (cross (S ! i) (B ! i))))"
    by blast
  have s0: "S ! 0 = (3 / 5, 0, 4 / 5)"
    using sites [rule_format, of 0] by (simp add: sqrt_25)
  have s1: "S ! 1 = (0, 1, 0)"
    using sites [rule_format, of 1] by (simp add: sqrt_25)
  have s2: "S ! 2 = (0, 0, 1)"
    using sites [rule_format, of 2] by simp
  have S: "S = [(3 / 5, 0, 4 / 5), (0, 1, 0), (0, 0, 1)]"
    by (subst list_of_three [OF len]) (simp only: s0 s1 s2)
  have "B = [(0, 3, 1 / 5), (8 / 5, 7 / 5, 9 / 5), (13 / 5, 18 / 5, - (1 / 5))]"
    using B unfolding S by (simp add: calculate_B_eff_example numeral_3_eq_3)
  then have b: "B ! 0 = (0, 3, 1 / 5)" "B ! 1 = (8 / 5, 7 / 5, 9 / 5)"
    "B ! 2 = (13 / 5, 18 / 5, - (1 / 5))"
    by simp_all
  have "(out ! 0, out ! 1, out ! 2) = (294 / 125, 81 / 50, - (441 / 250))"
    using law [rule_format, of 0] by (simp add: s0 b numeral_2_eq_2)
  moreover have "(out ! 3, out ! 4, out ! 5) = (- 1, 0, 5 / 2)"
    using law [rule_format, of 1] s1 b(2) by simp
  moreover have "(out ! 6, out ! 7, out ! 8) = (49 / 10, - (4 / 5), 0)"
    using law [rule_format, of 2] s2 b(3) by simp
  ultimately show ?thesis using h1 h3 out by blast
qed

text \<open>
  C10. For a flat state of \<open>3 N\<close> entries and an external field that evaluates and
  fits the chain, the derivative that \<open>llg_rhs\<close> returns for site \<open>i\<close> is orthogonal
  to the renormalised spin of site \<open>i\<close>: their dot product is 0.
\<close>

theorem llg_rhs_orthogonal:
  assumes "length S_flat = 3 * N"
    and "external_field t N h_external_func h_args = Inr h_ext"
    and "h_fits N h_ext"
  shows "\<exists>S0 S out. reshape_N3 S_flat N = Inr S0 \<and> renormalize S0 = Inr S \<and>
     fst (llg_rhs t S_flat N J D Da alpha gamma h_external_func h_args) = Inr out \<and>
     (\<forall>i<N. dot (out ! (3 * i), out ! (3 * i + 1), out ! (3 * i + 2)) (S ! i) = 0)"
proof -
  let ?f = "\<lambda>s b. vadd (smul (- gamma) (cross s b)) (smul (- alpha) (cross s (cross s b)))"
  obtain S0 S B where v: "reshape_N3 S_flat N = Inr S0" "renormalize S0 = Inr S"
      "length S = N" "length B = N"
      "llg_rhs t S_flat N J D Da alpha gamma h_external_func h_args =
         (Inr (flatten (map2 ?f S B)), flatten S)"
    using llg_rhs_value [OF assms, of J D Da alpha gamma] by blast
  let ?out = "flatten (map2 ?f S B)"
  have len: "length (map2 ?f S B) = N" using v(3,4) by simp
  have "dot (?out ! (3 * i), ?out ! (3 * i + 1), ?out ! (3 * i + 2)) (S ! i) = 0"
    if "i < N" for i
  proof -
    have "(?out ! (3 * i), ?out ! (3 * i + 1), ?out ! (3 * i + 2)) = map2 ?f S B ! i"
      using that len by (intro flatten_nth) simp
    also have "\<dots> = ?f (S ! i) (B ! i)"
      using that v(3,4) by simp
    finally show ?thesis by (simp only: llg_site_orthogonal)
  qed
  then show ?thesis using v by auto
qed

theorem llg_rhs_orthogonal_witness:
  "length [3, 0, 4, 0, 5, 0 :: real] = 3 * 2 \<and>
   external_field 0 2 None (None :: unit option) = Inr (HScalar 0) \<and>
   h_fits 2 (HScalar 0) \<and>
   (\<exists>S0 S out. reshape_N3 [3, 0, 4, 0, 5, 0] 2 = Inr S0 \<and> renormalize S0 = Inr S \<and>
      fst (llg_rhs 0 [3, 0, 4, 0, 5, 0] 2 1 (1 / 4) (- (1 / 10)) (1 / 20) 1 None (None :: unit option))
        = Inr out \<and>
      dot (out ! 0, out ! 1, out ! 2) (S ! 0) = 0 \<and>
      dot (out ! 3, out ! 4, out ! 5) (S ! 1) = 0)"
proof -
  have h1: "length [3, 0, 4, 0, 5, 0 :: real] = 3 * 2" by simp
  have h2: "external_field 0 2 None (None :: unit option) = Inr (HScalar 0)"
    by (simp add: external_field_def)
  have h3: "h_fits 2 (HScalar 0)" by (simp add: h_fits_def)
  from llg_rhs_orthogonal [OF h1 h2 h3, of 1 "1 / 4" "- (1 / 10)" "1 / 20" 1]
  obtain S0 S out where o: "reshape_N3 [3, 0, 4, 0, 5, 0] 2 = Inr S0" "renormalize S0 = Inr S"
    "fst (llg_rhs 0 [3, 0, 4, 0, 5, 0] 2 1 (1 / 4) (- (1 / 10)) (1 / 20) 1 None (None :: unit option))
        = Inr out"
    "\<forall>i<2. dot (out ! (3 * i), out ! (3 * i + 1), out ! (3 * i + 2)) (S ! i) = 0"
    by blast
  from o(4) [rule_format, of 0] o(4) [rule_format, of 1]
  have "dot (out ! 0, out ! 1, out ! 2) (S ! 0) = 0"
    "dot (out ! 3, out ! 4, out ! 5) (S ! 1) = 0"
    by (simp_all add: numeral_2_eq_2)
  with o(1,2,3) h1 h2 h3 show ?thesis by blast
qed

lemma norm3_sdiv:
  assumes "norm3 s \<noteq> 0"
  shows "norm3 (sdiv s (norm3 s)) = 1"
proof -
  obtain a b c where s: "s = (a, b, c)" by (cases s) auto
  let ?q = "a * a + b * b + c * c"
  have q: "sqrt ?q \<noteq> 0" using assms s by simp
  have q0: "?q \<noteq> 0" using q by auto
  have sq: "sqrt ?q * sqrt ?q = ?q" by simp
  have "a / sqrt ?q * (a / sqrt ?q) + b / sqrt ?q * (b / sqrt ?q) + c / sqrt ?q * (c / sqrt ?q)
      = ?q / (sqrt ?q * sqrt ?q)"
    by (simp only: times_divide_times_eq add_divide_distrib)
  also have "\<dots> = ?q / ?q" by (simp only: sq)
  also have "\<dots> = 1" using q0 by (rule divide_self)
  finally have e: "a / sqrt ?q * (a / sqrt ?q) + b / sqrt ?q * (b / sqrt ?q)
      + c / sqrt ?q * (c / sqrt ?q) = 1" .
  show ?thesis unfolding s norm3.simps sdiv.simps e by simp
qed

lemma np_divide_rows_zero: "0 \<in> set norms \<Longrightarrow> np_divide_rows S norms = Inl NonFinite"
  by (auto simp: np_divide_rows_def list_ex_iff)

text \<open>
  C9. In the model a division of the rows by norms of which one is zero gives
  \<open>NonFinite\<close>. For a flat state of \<open>3 N\<close> entries and an external field that fits the
  chain (the zero field when no field function is given, else the field function applied
  to \<open>t\<close>, \<open>N\<close> and its arguments), \<open>llg_rhs\<close> returns normally, and the array it has
  renormalised in place holds, for every site, the three entries as they were when the
  site has norm zero, and the three entries divided by the norm of the site otherwise,
  which is a vector of norm 1.
\<close>

theorem llg_rhs_renormalization:
  assumes "length S_flat = 3 * N"
    and "h_external_func = None \<and> h_ext = HScalar 0
       \<or> (\<exists>f a. h_external_func = Some f \<and> h_args = Some a \<and> h_ext = f t N a)"
    and "h_fits N h_ext"
  shows "(\<forall>S norms. 0 \<in> set norms \<longrightarrow> np_divide_rows S norms = Inl NonFinite) \<and>
     (\<exists>out after.
        llg_rhs t S_flat N J D Da alpha gamma h_external_func h_args = (Inr out, after) \<and>
        length after = 3 * N \<and>
        (\<forall>i<N. let x = S_flat ! (3 * i); y = S_flat ! (3 * i + 1); z = S_flat ! (3 * i + 2);
                   n = sqrt (x * x + y * y + z * z)
               in (n = 0 \<longrightarrow>
                     (after ! (3 * i), after ! (3 * i + 1), after ! (3 * i + 2)) = (x, y, z)) \<and>
                  (n \<noteq> 0 \<longrightarrow>
                     (after ! (3 * i), after ! (3 * i + 1), after ! (3 * i + 2))
                       = (x / n, y / n, z / n) \<and>
                     norm3 (x / n, y / n, z / n) = 1)))"
proof -
  have ext: "external_field t N h_external_func h_args = Inr h_ext"
    using assms(2) by (rule external_field_cases)
  obtain S0 S B where v: "length S = N"
      "\<forall>i<N. S ! i =
        (let x = S_flat ! (3 * i); y = S_flat ! (3 * i + 1); z = S_flat ! (3 * i + 2);
             n = sqrt (x * x + y * y + z * z)
         in if n = 0 then (x, y, z) else (x / n, y / n, z / n))"
      "llg_rhs t S_flat N J D Da alpha gamma h_external_func h_args =
         (Inr (flatten (map2 (\<lambda>s b. vadd (smul (- gamma) (cross s b))
                                   (smul (- alpha) (cross s (cross s b))))
                      S B)), flatten S)"
    using llg_rhs_value [OF assms(1) ext assms(3), of J D Da alpha gamma] by blast
  let ?after = "flatten S"
  have "let x = S_flat ! (3 * i); y = S_flat ! (3 * i + 1); z = S_flat ! (3 * i + 2);
            n = sqrt (x * x + y * y + z * z)
        in (n = 0 \<longrightarrow>
              (?after ! (3 * i), ?after ! (3 * i + 1), ?after ! (3 * i + 2)) = (x, y, z)) \<and>
           (n \<noteq> 0 \<longrightarrow>
              (?after ! (3 * i), ?after ! (3 * i + 1), ?after ! (3 * i + 2))
                = (x / n, y / n, z / n) \<and>
              norm3 (x / n, y / n, z / n) = 1)" if "i < N" for i
  proof -
    have a: "(?after ! (3 * i), ?after ! (3 * i + 1), ?after ! (3 * i + 2)) = S ! i"
      using that v(1) by (intro flatten_nth) simp
    have u: "norm3 (x, y, z) \<noteq> 0 \<Longrightarrow>
        norm3 (x / norm3 (x, y, z), y / norm3 (x, y, z), z / norm3 (x, y, z)) = 1" for x y z
      using norm3_sdiv [of "(x, y, z)"] by simp
    show ?thesis
      unfolding a using v(2) [rule_format, OF that] u by (simp add: Let_def)
  qed
  then have "\<forall>i<N. let x = S_flat ! (3 * i); y = S_flat ! (3 * i + 1); z = S_flat ! (3 * i + 2);
            n = sqrt (x * x + y * y + z * z)
        in (n = 0 \<longrightarrow>
              (?after ! (3 * i), ?after ! (3 * i + 1), ?after ! (3 * i + 2)) = (x, y, z)) \<and>
           (n \<noteq> 0 \<longrightarrow>
              (?after ! (3 * i), ?after ! (3 * i + 1), ?after ! (3 * i + 2))
                = (x / n, y / n, z / n) \<and>
              norm3 (x / n, y / n, z / n) = 1)"
    by blast
  moreover have "length ?after = 3 * N" using v(1) by simp
  ultimately show ?thesis using v(3) np_divide_rows_zero by blast
qed

theorem llg_rhs_renormalization_witness:
  "length [3, 0, 4, 0, 0, 0 :: real] = 3 * 2 \<and>
   h_fits 2 (HField (replicate 2 (1, 2, 0))) \<and>
   (\<exists>out after.
      llg_rhs 1 [3, 0, 4, 0, 0, 0] 2 1 1 (1 / 2) (1 / 2) 1
        (Some (\<lambda>t N a. HField (replicate N (t, a, 0)))) (Some 2) = (Inr out, after) \<and>
      (after ! 0, after ! 1, after ! 2) = (3 / 5, 0, 4 / 5) \<and>
      (after ! 3, after ! 4, after ! 5) = (0, 0, 0))"
proof -
  let ?y = "[3, 0, 4, 0, 0, 0 :: real]"
  let ?f = "\<lambda>(t :: real) (N :: nat) (a :: real). HField (replicate N (t, a, 0))"
  let ?H = "HField (replicate 2 (1, 2, 0))"
  have h1: "length ?y = 3 * 2" by simp
  have h2: "Some ?f = None \<and> ?H = HScalar 0
      \<or> (\<exists>f a. Some ?f = Some f \<and> Some (2 :: real) = Some a \<and> ?H = f 1 2 a)"
    by simp
  have h3: "h_fits 2 ?H" by (simp add: h_fits_def)
  from llg_rhs_renormalization [OF h1 h2 h3, of 1 1 "1 / 2" "1 / 2" 1]
  obtain out after where r: "llg_rhs 1 ?y 2 1 1 (1 / 2) (1 / 2) 1 (Some ?f) (Some 2) = (Inr out, after)"
    and sites: "\<forall>i<2. let x = ?y ! (3 * i); y = ?y ! (3 * i + 1); z = ?y ! (3 * i + 2);
                   n = sqrt (x * x + y * y + z * z)
               in (n = 0 \<longrightarrow>
                     (after ! (3 * i), after ! (3 * i + 1), after ! (3 * i + 2)) = (x, y, z)) \<and>
                  (n \<noteq> 0 \<longrightarrow>
                     (after ! (3 * i), after ! (3 * i + 1), after ! (3 * i + 2))
                       = (x / n, y / n, z / n) \<and>
                     norm3 (x / n, y / n, z / n) = 1)"
    by blast
  have "(after ! 0, after ! 1, after ! 2) = (3 / 5, 0, 4 / 5)"
    using sites [rule_format, of 0] by (simp add: sqrt_25 Let_def numeral_2_eq_2)
  moreover have "(after ! 3, after ! 4, after ! 5) = (0, 0, 0)"
    using sites [rule_format, of 1] by (simp add: Let_def)
  ultimately show ?thesis using h1 h3 r by blast
qed

text \<open>
  C6. The call \<open>llg_rhs(0, y, 1, ...)\<close> with \<open>y = [0, 0, 2]\<close> leaves \<open>[0, 0, 1]\<close> in the
  caller's array: the renormalisation writes through the reshaped view.
\<close>

theorem llg_rhs_writes_caller_array:
  "snd (llg_rhs 0 [0, 0, 2] 1 1 0 0 0 1 (None :: (real \<Rightarrow> nat \<Rightarrow> unit \<Rightarrow> h_external) option) None)
     = [0, 0, 1]"
  by (simp add: llg_rhs_def reshape_N3_def renormalize_def np_divide_rows_def guard_norms_def
      flatten_def)

section \<open>Core tracking and the fit window\<close>

lemma tracked_samples_Cons:
  "tracked_samples (row # rows) (t # ts) =
     (if np_where_neg row \<noteq> [] then [(t, np_mean (np_where_neg row))] else [])
       @ tracked_samples rows ts"
  by (simp add: tracked_samples_def)

lemma track_soliton_acc:
  "t_idx + length ts \<le> length sz \<Longrightarrow>
     track_soliton sz t_idx ts (ps, tws) =
       Inr (ps @ map snd (tracked_samples (drop t_idx sz) ts),
            tws @ map fst (tracked_samples (drop t_idx sz) ts))"
proof (induction ts arbitrary: t_idx ps tws)
  case Nil
  then show ?case by (simp add: tracked_samples_def)
next
  case (Cons t ts)
  then have lt: "t_idx < length sz" and le: "Suc t_idx + length ts \<le> length sz" by simp_all
  have d: "drop t_idx sz = sz ! t_idx # drop (Suc t_idx) sz"
    using lt by (simp add: Cons_nth_drop_Suc)
  show ?case
    using lt Cons.IH [OF le] by (simp add: d tracked_samples_Cons Let_def)
qed




lemma mask_select_times: "mask_select ts (map P ts) = filter P ts"
  by (induction ts) (simp_all add: mask_select_def)

lemma mask_select_zip:
  "length ps = length ts \<Longrightarrow>
     mask_select ps (map P ts) = map snd (filter (\<lambda>s. P (fst s)) (zip ts ps))"
  by (induction ps ts rule: list_induct2) (simp_all add: mask_select_def)

lemma filter_fst_zip:
  "length ps = length ts \<Longrightarrow> map fst (filter (\<lambda>s. P (fst s)) (zip ts ps)) = filter P ts"
  by (induction ps ts rule: list_induct2) simp_all

lemma np_sum_mask_map: "np_sum_mask (map P ts) = length (filter P ts)"
  by (induction ts) (simp_all add: np_sum_mask_def)

lemma fit_velocity_window:
  assumes "length positions = length tpts"
  shows "fit_velocity curve_fit positions tpts =
     (let used = filter in_open_window (zip tpts positions)
      in if length used < 2 then Inr NaN
         else (case curve_fit (map fst used) (map snd used) of
                 Inl RuntimeError \<Rightarrow> Inr NaN
               | Inl e \<Rightarrow> Inl e
               | Inr (a, b) \<Rightarrow> Inr (Velocity a)))"
proof -
  let ?P = "\<lambda>t. t > T_START_FIT \<and> t < T_END_FIT"
  have w: "in_open_window = (\<lambda>s. ?P (fst s))"
    by (auto simp: in_open_window_def fun_eq_iff)
  have l: "length (filter ?P tpts) = length (filter (\<lambda>s. ?P (fst s)) (zip tpts positions))"
    using filter_fst_zip [OF assms, of ?P] by (metis length_map)
  show ?thesis
    unfolding fit_velocity_def fit_mask_def Let_def w np_sum_mask_map
      mask_select_zip [OF assms] mask_select_times l filter_fst_zip [OF assms, symmetric]
    by simp
qed

lemma tracked_samples_unzip:
  "zip (map fst (tracked_samples sz tpts)) (map snd (tracked_samples sz tpts)) = tracked_samples sz tpts"
  by (simp add: zip_map_fst_snd)

lemma calculate_velocity_tracked:
  assumes "sz_history_of (S_history d) = Inr sz_history"
    and "length (time_points d) \<le> length sz_history"
  shows "calculate_velocity curve_fit (Some d) =
     (let used = filter in_open_window (tracked_samples sz_history (time_points d))
      in if length used < 2 then Inr NaN
         else (case curve_fit (map fst used) (map snd used) of
                 Inl RuntimeError \<Rightarrow> Inr NaN
               | Inl e \<Rightarrow> Inl e
               | Inr (a, b) \<Rightarrow> Inr (Velocity a)))"
proof -
  let ?tr = "tracked_samples sz_history (time_points d)"
  have t: "track_soliton sz_history 0 (time_points d) ([], []) = Inr (map snd ?tr, map fst ?tr)"
    using track_soliton_acc [of 0 "time_points d" sz_history "[]" "[]"] assms(2) by simp
  have f: "fit_velocity curve_fit (map snd ?tr) (map fst ?tr) =
     (let used = filter in_open_window ?tr
      in if length used < 2 then Inr NaN
         else (case curve_fit (map fst used) (map snd used) of
                 Inl RuntimeError \<Rightarrow> Inr NaN
               | Inl e \<Rightarrow> Inl e
               | Inr (a, b) \<Rightarrow> Inr (Velocity a)))"
    using fit_velocity_window [of "map snd ?tr" "map fst ?tr" curve_fit]
    by (simp only: tracked_samples_unzip length_map)
  show ?thesis
  proof (cases "?tr = []")
    case True
    then show ?thesis
      by (simp add: calculate_velocity_def bind_err_def assms(1) t)
  next
    case False
    then show ?thesis
      by (simp add: calculate_velocity_def bind_err_def assms(1) t f)
  qed
qed


lemma filter_length_mono:
  "(\<And>x. P x \<Longrightarrow> Q x) \<Longrightarrow> length (filter P xs) \<le> length (filter Q xs)"
  by (induction xs) auto

lemma open_in_closed: "in_open_window s \<Longrightarrow> in_closed_window s"
  by (simp add: in_open_window_def in_closed_window_def)

text \<open>
  C5, as amended. The samples used in the fit are exactly the tracked samples with
  \<open>T_START_FIT < t < T_END_FIT\<close>: \<open>calculate_velocity\<close> returns \<open>nan\<close> when fewer
  than two of them exist and otherwise hands exactly them to the fitter. A sample at
  \<open>T_START_FIT\<close> or at \<open>T_END_FIT\<close> is not among them.
\<close>

theorem velocity_fit_window:
  assumes "sz_history_of (S_history d) = Inr sz_history"
    and "length (time_points d) \<le> length sz_history"
  shows "calculate_velocity curve_fit (Some d) =
     (let used = filter in_open_window (tracked_samples sz_history (time_points d))
      in if length used < 2 then Inr NaN
         else (case curve_fit (map fst used) (map snd used) of
                 Inl RuntimeError \<Rightarrow> Inr NaN
               | Inl e \<Rightarrow> Inl e
               | Inr (a, b) \<Rightarrow> Inr (Velocity a)))
     \<and> in_open_window (t, p) = (T_START_FIT < t \<and> t < T_END_FIT)
     \<and> \<not> in_open_window (T_START_FIT, p) \<and> \<not> in_open_window (T_END_FIT, p)"
  using calculate_velocity_tracked [OF assms, of curve_fit]
  by (simp add: in_open_window_def)

text \<open>
  C8. When fewer than two tracked samples lie in the fit window (read with or without
  its end points), \<open>calculate_velocity\<close> returns \<open>nan\<close>: it raises nothing and
  returns no number, and \<open>nan\<close> is not a velocity value, zero included.
\<close>

theorem velocity_needs_two_samples:
  assumes "sz_history_of (S_history d) = Inr sz_history"
    and "length (time_points d) \<le> length sz_history"
    and "length (filter in_closed_window (tracked_samples sz_history (time_points d))) < 2
       \<or> length (filter in_open_window (tracked_samples sz_history (time_points d))) < 2"
  shows "calculate_velocity curve_fit (Some d) = Inr NaN
     \<and> (\<forall>v. calculate_velocity curve_fit (Some d) \<noteq> Inr (Velocity v))
     \<and> (\<forall>e. calculate_velocity curve_fit (Some d) \<noteq> Inl e)"
proof -
  let ?tr = "tracked_samples sz_history (time_points d)"
  have "length (filter in_open_window ?tr) \<le> length (filter in_closed_window ?tr)"
    by (rule filter_length_mono) (rule open_in_closed)
  with assms(3) have "length (filter in_open_window ?tr) < 2" by auto
  then have "calculate_velocity curve_fit (Some d) = Inr NaN"
    by (simp add: calculate_velocity_tracked [OF assms(1,2)])
  then show ?thesis by simp
qed


lemma sz_history_example_one_site:
  "sz_history_of [[0, 0, 0], [0, 0, 0], [- 1, - 1, - 1]] = Inr [[- 1], [- 1], [- 1]]"
  by code_simp


lemma tracked_example_one_site:
  "tracked_samples [[- 1], [- 1], [- 1]] [30, 90, 150] = [(30, 0), (90, 0), (150, 0)]"
  by (simp add: tracked_samples_def np_where_neg_def np_mean_def)

lemma tracked_example_inside:
  "tracked_samples [[- 1], [- 1], [- 1]] [40, 90, 140] = [(40, 0), (90, 0), (140, 0)]"
  by (simp add: tracked_samples_def np_where_neg_def np_mean_def)


theorem velocity_fit_window_witness:
  "sz_history_of (S_history \<lparr>S_history = [[0, 0, 0], [0, 0, 0], [- 1, - 1, - 1]],
                               time_points = [40, 90, 140]\<rparr>) = Inr [[- 1], [- 1], [- 1]] \<and>
   length (time_points \<lparr>S_history = [[0, 0, 0], [0, 0, 0], [- 1, - 1, - 1]],
                         time_points = [40, 90, 140]\<rparr>) \<le> length [[- 1], [- 1], [- 1 :: real]] \<and>
   calculate_velocity (\<lambda>ts ps. Inr (sum_list ts, sum_list ps))
     (Some \<lparr>S_history = [[0, 0, 0], [0, 0, 0], [- 1, - 1, - 1]], time_points = [40, 90, 140]\<rparr>)
     = Inr (Velocity 270)"
proof -
  let ?d = "\<lparr>S_history = [[0, 0, 0], [0, 0, 0], [- 1, - 1, - 1]], time_points = [40, 90, 140]\<rparr>"
  have h1: "sz_history_of (S_history ?d) = Inr [[- 1], [- 1], [- 1]]"
    by (simp add: sz_history_example_one_site)
  have h2: "length (time_points ?d) \<le> length [[- 1], [- 1], [- 1 :: real]]" by simp
  from velocity_fit_window [OF h1 h2, of "\<lambda>ts ps. Inr (sum_list ts, sum_list ps)"]
  have "calculate_velocity (\<lambda>ts ps. Inr (sum_list ts, sum_list ps)) (Some ?d) = Inr (Velocity 270)"
    by (simp add: tracked_example_inside in_open_window_def T_START_FIT_def T_END_FIT_def)
  with h1 h2 show ?thesis by blast
qed

theorem velocity_needs_two_samples_witness:
  "sz_history_of (S_history \<lparr>S_history = [[0, 0, 0], [0, 0, 0], [- 1, - 1, - 1]],
                               time_points = [30, 90, 150]\<rparr>) = Inr [[- 1], [- 1], [- 1]] \<and>
   length (time_points \<lparr>S_history = [[0, 0, 0], [0, 0, 0], [- 1, - 1, - 1]],
                         time_points = [30, 90, 150]\<rparr>) \<le> length [[- 1], [- 1], [- 1 :: real]] \<and>
   length (filter in_open_window (tracked_samples [[- 1], [- 1], [- 1]] [30, 90, 150])) < 2 \<and>
   calculate_velocity (\<lambda>ts ps. Inr (sum_list ts, sum_list ps))
     (Some \<lparr>S_history = [[0, 0, 0], [0, 0, 0], [- 1, - 1, - 1]], time_points = [30, 90, 150]\<rparr>)
     = Inr NaN"
proof -
  let ?d = "\<lparr>S_history = [[0, 0, 0], [0, 0, 0], [- 1, - 1, - 1]], time_points = [30, 90, 150]\<rparr>"
  have h1: "sz_history_of (S_history ?d) = Inr [[- 1], [- 1], [- 1]]"
    by (simp add: sz_history_example_one_site)
  have h2: "length (time_points ?d) \<le> length [[- 1], [- 1], [- 1 :: real]]" by simp
  have c: "length (filter in_open_window (tracked_samples [[- 1], [- 1], [- 1]] [30, 90, 150])) < 2"
    by (simp add: tracked_example_one_site in_open_window_def T_START_FIT_def T_END_FIT_def)
  then have h3: "length (filter in_closed_window (tracked_samples [[- 1], [- 1], [- 1]] (time_points ?d))) < 2
       \<or> length (filter in_open_window (tracked_samples [[- 1], [- 1], [- 1]] (time_points ?d))) < 2"
    by simp
  from velocity_needs_two_samples [OF h1 h2 h3, of "\<lambda>ts ps. Inr (sum_list ts, sum_list ps)"]
  have "calculate_velocity (\<lambda>ts ps. Inr (sum_list ts, sum_list ps)) (Some ?d) = Inr NaN"
    by blast
  with h1 h2 c show ?thesis by blast
qed

text \<open>
  C5 as stated fails: with tracked samples at the times 30 and 150 the mask selects no
  time, whereas the closed window holds both.
\<close>

theorem fit_window_closed_counterexample:
  "mask_select [30, 150] (fit_mask [30, 150])
     \<noteq> map fst (filter in_closed_window (zip [30, 150] [0, 0]))"
  by (simp add: mask_select_def fit_mask_def in_closed_window_def T_START_FIT_def T_END_FIT_def)

section \<open>The convergence test of the relaxation\<close>

lemma np_roll_singleton: "np_roll k [x] = [x]"
  by (simp add: np_roll_def)

lemma calculate_B_eff_single_z:
  "calculate_B_eff [(0, 0, s)] (- 1) 0 0 (HScalar 0) = Inr [(0, 0, - 2 * s)]"
  by (simp add: calculate_B_eff_def b_heisenberg_def b_dmi_def b_anisotropy_def np_roll_singleton)

lemma normalize_rows_single_z:
  "a \<noteq> 0 \<Longrightarrow> normalize_rows [(0, 0, a)] = Inr [(0, 0, a / \<bar>a\<bar>)]"
  by (simp add: normalize_rows_def np_divide_rows_def)

lemma relax_step_flip:
  "s \<noteq> 0 \<Longrightarrow> relax_step (- 1) 0 0 1 [(0, 0, s)] = Inr [(0, 0, - s / \<bar>s\<bar>)]"
  by (simp add: relax_step_def bind_err_def calculate_B_eff_single_z normalize_rows_single_z)

lemma relax_step_flip_pow:
  "relax_step (- 1) 0 0 1 [(0, 0, (- 1) ^ k)] = Inr [(0, 0, (- 1) ^ Suc k)]"
  using relax_step_flip [of "(- 1) ^ k"] by (simp add: power_abs)

lemma np_max_abs_diff_flip:
  "np_max_abs_diff [(0, 0, (- 1) ^ Suc k)] [(0, 0, (- 1) ^ k)] = Inr 2"
  by (simp add: np_max_abs_diff_def abs_diff_entries_def abs_mult power_abs)

lemma np_max_abs_diff_same: "np_max_abs_diff [(0, 0, a)] [(0, 0, a)] = Inr 0"
  by (simp add: np_max_abs_diff_def abs_diff_entries_def)

lemma relax_loop_flip:
  "tol \<le> 2 \<Longrightarrow>
     relax_loop (- 1) 0 0 tol 1 step n [(0, 0, (- 1) ^ k)] = Inr [(0, 0, (- 1) ^ (k + n))]"
proof (induction n arbitrary: step k)
  case 0
  then show ?case by simp
next
  case (Suc n)
  have "relax_loop (- 1) 0 0 tol 1 step (Suc n) [(0, 0, (- 1) ^ k)]
      = relax_loop (- 1) 0 0 tol 1 (Suc step) n [(0, 0, (- 1) ^ Suc k)]"
    using Suc.prems by (simp add: relax_step_flip_pow np_max_abs_diff_flip del: power_Suc)
  also have "\<dots> = Inr [(0, 0, (- 1) ^ (Suc k + n))]"
    by (rule Suc.IH [OF Suc.prems])
  finally show ?case by simp
qed

lemma since_checkpoint_stops:
  "0 < tol \<Longrightarrow> j < 500 \<Longrightarrow> j < n \<Longrightarrow>
     relax_loop_since_checkpoint (- 1) 0 0 tol 1 (500 - j) n
       [(0, 0, (- 1) ^ (500 - j))] [(0, 0, - 1)] = Inr [(0, 0, - 1)]"
proof (induction j arbitrary: n)
  case 0
  then obtain m where n: "n = Suc m" by (cases n) auto
  have p: "(- 1 :: real) ^ (500 :: nat) = 1" by simp
  have f: "relax_step (- 1) 0 0 1 [(0, 0, 1)] = Inr [(0, 0, - 1)]"
    using relax_step_flip [of 1] by simp
  show ?case
    using 0 by (simp add: n p f np_max_abs_diff_same)
next
  case (Suc j)
  then obtain m where n: "n = Suc m" and m: "j < m" by (cases n) auto
  have s: "0 < 500 - Suc j" "500 - Suc j < 500" "Suc (500 - Suc j) = 500 - j"
    using Suc.prems by simp_all
  then have nz: "(500 - Suc j) mod 500 \<noteq> 0" by simp
  have "relax_loop_since_checkpoint (- 1) 0 0 tol 1 (500 - Suc j) n
       [(0, 0, (- 1) ^ (500 - Suc j))] [(0, 0, - 1)]
     = relax_loop_since_checkpoint (- 1) 0 0 tol 1 (Suc (500 - Suc j)) m
       [(0, 0, (- 1) ^ Suc (500 - Suc j))] [(0, 0, - 1)]"
    unfolding n using nz by (simp add: relax_step_flip_pow del: power_Suc)
  also have "\<dots> = Inr [(0, 0, - 1)]"
    unfolding s(3) using Suc.IH [of m] Suc.prems m by simp
  finally show ?case .
qed

lemma normalize_rows_start:
  "normalize_rows (map (\<lambda>v. sadd v (- (1 / 2))) [(1 / 2, 1 / 2, 3 / 4)]) = Inr [(0, 0, 1)]"
  using normalize_rows_single_z [of "1 / 4"] by simp

lemma since_checkpoint_first:
  "tol \<le> 2 \<Longrightarrow>
     relax_loop_since_checkpoint (- 1) 0 0 tol 1 0 (Suc m) [(0, 0, 1)] [(0, 0, 1)]
       = relax_loop_since_checkpoint (- 1) 0 0 tol 1 (Suc 0) m [(0, 0, - 1)] [(0, 0, - 1)]"
  using relax_step_flip [of 1] np_max_abs_diff_flip [of 0] by simp

lemma find_ground_state_flip_run:
  "find_ground_state [(1 / 2, 1 / 2, 3 / 4)] (- 1) 0 0 502 (1 / 100000000) 1 = Inr [(0, 0, 1)]"
proof -
  have "find_ground_state [(1 / 2, 1 / 2, 3 / 4)] (- 1) 0 0 502 (1 / 100000000) 1
      = relax_loop (- 1) 0 0 (1 / 100000000) 1 0 502 [(0, 0, 1)]"
    by (simp only: find_ground_state_def normalize_rows_start bind_err_def sum.case)
  also have "\<dots> = Inr [(0, 0, 1)]"
    using relax_loop_flip [of "1 / 100000000" 0 502 0] by simp
  finally show ?thesis .
qed

lemma since_checkpoint_flip_run:
  "find_ground_state_since_checkpoint [(1 / 2, 1 / 2, 3 / 4)] (- 1) 0 0 502 (1 / 100000000) 1
     = Inr [(0, 0, - 1)]"
proof -
  have "find_ground_state_since_checkpoint [(1 / 2, 1 / 2, 3 / 4)] (- 1) 0 0 502 (1 / 100000000) 1
      = relax_loop_since_checkpoint (- 1) 0 0 (1 / 100000000) 1 0 502 [(0, 0, 1)] [(0, 0, 1)]"
    by (simp only: find_ground_state_since_checkpoint_def normalize_rows_start bind_err_def sum.case)
  also have "\<dots> = relax_loop_since_checkpoint (- 1) 0 0 (1 / 100000000) 1 (Suc 0) 501
       [(0, 0, - 1)] [(0, 0, - 1)]"
    using since_checkpoint_first [of "1 / 100000000" 501] by simp
  also have "\<dots> = Inr [(0, 0, - 1)]"
    using since_checkpoint_stops [of "1 / 100000000" 499 501] by simp
  finally show ?thesis .
qed

text \<open>
  C3 as stated fails. One spin, \<open>J = - 1\<close>, \<open>D = Da = 0\<close>, \<open>dt_relax = 1\<close>: every
  iteration turns the spin over. After iteration 500 the configuration is the one the
  checkpoint of iteration 0 left, so the change since the last checkpoint is 0, below
  the tolerance \<open>1e-8\<close>; the code compares with the configuration one iteration
  earlier, finds a change of 2, goes on, and returns the other orientation after 502
  iterations.
\<close>

theorem find_ground_state_since_checkpoint_counterexample:
  "find_ground_state [(1 / 2, 1 / 2, 3 / 4)] (- 1) 0 0 502 (1 / 100000000) 1
     \<noteq> find_ground_state_since_checkpoint [(1 / 2, 1 / 2, 3 / 4)] (- 1) 0 0 502 (1 / 100000000) 1"
  by (simp add: find_ground_state_flip_run since_checkpoint_flip_run)

lemma relax_loop_run_from:
  "run_from J D Da tol dt s k S0 = Some S \<Longrightarrow> k \<le> n \<Longrightarrow>
     relax_loop J D Da tol dt s n S0 = relax_loop J D Da tol dt (s + k) (n - k) S"
proof (induction k arbitrary: s n S0)
  case 0
  then show ?case by simp
next
  case (Suc k)
  then obtain m where n: "n = Suc m" and m: "k \<le> m" by (cases n) auto
  from Suc.prems(1) obtain S1 where S1: "relax_step J D Da dt S0 = Inr S1"
    by (auto split: sum.splits)
  show ?case
  proof (cases "s mod 500 = 0")
    case True
    with Suc.prems(1) S1 obtain c where c: "np_max_abs_diff S1 S0 = Inr c" "\<not> c < tol"
      and r: "run_from J D Da tol dt (Suc s) k S1 = Some S"
      by (auto split: sum.splits if_splits)
    show ?thesis
      using Suc.IH [OF r m] True S1 c by (simp add: n)
  next
    case False
    with Suc.prems(1) S1 have r: "run_from J D Da tol dt (Suc s) k S1 = Some S"
      by simp
    show ?thesis
      using Suc.IH [OF r m] False S1 by (simp add: n)
  qed
qed

lemma run_from_add:
  "run_from J D Da tol dt s (k + j) S0 =
     (case run_from J D Da tol dt s k S0 of
        None \<Rightarrow> None
      | Some S \<Rightarrow> run_from J D Da tol dt (k + s) j S)"
  by (induction k arbitrary: s S0) (auto split: sum.splits cong: option.case_cong)

text \<open>
  C3, as amended. When the loop enters iteration \<open>k\<close> (\<open>k < max_steps\<close>) with the
  configuration \<open>S\<close> and the update of that iteration gives \<open>S'\<close>, with \<open>change\<close>
  the largest absolute difference between an entry of \<open>S'\<close> and of \<open>S\<close>: if \<open>k\<close>
  is a multiple of 500 and \<open>change < tolerance\<close>, \<open>find_ground_state\<close> returns
  \<open>S'\<close>; otherwise the loop enters iteration \<open>k + 1\<close> with \<open>S'\<close>.
\<close>

theorem find_ground_state_checkpoint:
  assumes "normalize_rows (map (\<lambda>v. sadd v (- (1 / 2))) rnd) = Inr S0"
    and "run_from J D Da tolerance dt_relax 0 k S0 = Some S"
    and "k < max_steps"
    and "relax_step J D Da dt_relax S = Inr S'"
    and "np_max_abs_diff S' S = Inr change"
  shows "(k mod 500 = 0 \<and> change < tolerance \<longrightarrow>
            find_ground_state rnd J D Da max_steps tolerance dt_relax = Inr S')
       \<and> (\<not> (k mod 500 = 0 \<and> change < tolerance) \<longrightarrow>
            run_from J D Da tolerance dt_relax 0 (Suc k) S0 = Some S'
          \<and> find_ground_state rnd J D Da max_steps tolerance dt_relax =
              relax_loop J D Da tolerance dt_relax (Suc k) (max_steps - Suc k) S')"
proof -
  obtain m where m: "max_steps - k = Suc m" "max_steps - Suc k = m"
    using assms(3) by (cases "max_steps - k") auto
  have "find_ground_state rnd J D Da max_steps tolerance dt_relax =
      relax_loop J D Da tolerance dt_relax 0 max_steps S0"
    by (simp add: find_ground_state_def bind_err_def assms(1))
  also have "\<dots> = relax_loop J D Da tolerance dt_relax k (max_steps - k) S"
    using relax_loop_run_from [OF assms(2), of max_steps] assms(3) by simp
  finally have f: "find_ground_state rnd J D Da max_steps tolerance dt_relax =
      relax_loop J D Da tolerance dt_relax k (Suc m) S"
    by (simp add: m)
  have r: "run_from J D Da tolerance dt_relax 0 (Suc k) S0 =
      run_from J D Da tolerance dt_relax k (Suc 0) S"
    using run_from_add [of J D Da tolerance dt_relax 0 k "Suc 0" S0]
    by (simp add: assms(2) del: run_from.simps(2))
  show ?thesis
    unfolding f r m(2) using assms(4,5) by simp
qed

theorem find_ground_state_checkpoint_witness:
  "normalize_rows (map (\<lambda>v. sadd v (- (1 / 2))) [(1 / 2, 1 / 2, 3 / 4)]) = Inr [(0, 0, 1)] \<and>
   run_from (- 1) 0 0 3 1 0 0 [(0, 0, 1)] = Some [(0, 0, 1)] \<and>
   (0 :: nat) < 502 \<and>
   relax_step (- 1) 0 0 1 [(0, 0, 1)] = Inr [(0, 0, - 1)] \<and>
   np_max_abs_diff [(0, 0, - 1)] [(0, 0, 1)] = Inr 2 \<and>
   find_ground_state [(1 / 2, 1 / 2, 3 / 4)] (- 1) 0 0 502 3 1 = Inr [(0, 0, - 1)]"
proof -
  have h1: "normalize_rows (map (\<lambda>v. sadd v (- (1 / 2))) [(1 / 2, 1 / 2, 3 / 4)]) = Inr [(0, 0, 1)]"
    by (rule normalize_rows_start)
  have h2: "run_from (- 1) 0 0 3 1 0 0 [(0, 0, 1)] = Some [(0, 0, 1)]" by simp
  have h3: "(0 :: nat) < 502" by simp
  have h4: "relax_step (- 1) 0 0 1 [(0, 0, 1)] = Inr [(0, 0, - 1)]"
    using relax_step_flip [of 1] by simp
  have h5: "np_max_abs_diff [(0, 0, - 1)] [(0, 0, 1)] = Inr 2"
    using np_max_abs_diff_flip [of 0] by simp
  from find_ground_state_checkpoint [OF h1 h2 h3 h4 h5]
  have "find_ground_state [(1 / 2, 1 / 2, 3 / 4)] (- 1) 0 0 502 3 1 = Inr [(0, 0, - 1)]"
    by simp
  with h1 h2 h3 h4 h5 show ?thesis by blast
qed

end
